theory Spec2Isabelle
  imports Complex_Main "HOL-Library.Multiset"
begin

section \<open>Data model\<close>

text \<open>
  The event-driven simulator of Moby (\<^verbatim>\<open>src/EventDrivenSimulator.cpp\<close>,
  \<^verbatim>\<open>include/Moby/Event.h\<close>). A \<^verbatim>\<open>double\<close> is modelled as a real number, a
  \<^verbatim>\<open>Ravelin::VectorNd\<close> as a list of reals, a \<^verbatim>\<open>BasePtr\<close> (the identity of a
  geometry, a body or a joint) as a natural number.
\<close>

type_synonym base = nat
type_synonym vec = "real list"

text \<open>\<^verbatim>\<open>std::numeric_limits<double>::epsilon()\<close>, and \<^verbatim>\<open>std::numeric_limits<double>::max()\<close>, which the source names \<^verbatim>\<open>INF\<close>.\<close>

definition dbl_epsilon :: real where
  "dbl_epsilon = 1 / 2 ^ 52"

definition INF_max :: real where
  "INF_max = (2 - 1 / 2 ^ 52) * 2 ^ 1023"

text \<open>\<^verbatim>\<open>v *= a\<close> and \<^verbatim>\<open>u += v\<close> on vectors (the operands have the same size).\<close>

definition vscale :: "real \<Rightarrow> vec \<Rightarrow> vec" where
  "vscale a v = map (\<lambda>x. x * a) v"

definition vadd :: "vec \<Rightarrow> vec \<Rightarrow> vec" where
  "vadd u v = map2 (+) u v"

datatype EventType = eNone | eContact | eLimit | eConstraint

datatype EventClass = eUndetermined | eSeparating | eResting | eImpacting

text \<open>
  A single body as \<^verbatim>\<open>get_contact_parameters\<close> sees it: its identity, whether the
  cast to \<^verbatim>\<open>RigidBody\<close> succeeds, and the articulated body it belongs to (if any).
\<close>

record SingleBody =
  sb_id :: base
  is_rigid :: bool
  articulated_body :: "base option"

record CollisionGeometry =
  geom_id :: base
  single_body :: SingleBody

record ContactParameters =
  cp_epsilon :: real
  cp_mu_coulomb :: real
  cp_mu_viscous :: real
  cp_NK :: nat

text \<open>
  The fields of \<^verbatim>\<open>class Event\<close> that the simulator reads or writes. The contact
  point, the directions and the impulses are only used by the impact handler and the
  visualisation, and are left out.
\<close>

record Event =
  event_type :: EventType
  t :: real
  t_true :: real
  limit_joint :: base
  limit_dof :: nat
  limit_upper :: bool
  constraint_joint :: base
  contact_geom1 :: CollisionGeometry
  contact_geom2 :: CollisionGeometry
  contact_mu_coulomb :: real
  contact_mu_viscous :: real
  contact_epsilon :: real
  contact_NK :: nat
  tol :: real

text \<open>
  A dynamic body: its generalized coordinates and velocity, and whether the cast to
  \<^verbatim>\<open>ArticulatedBody\<close> succeeds.
\<close>

record Body =
  gc :: vec
  gv :: vec
  is_articulated :: bool

section \<open>Event classification\<close>

text \<open>
  Modelled from the spec: the body of \<^verbatim>\<open>Event::determine_event_class\<close> is in
  \<^verbatim>\<open>Event.cpp\<close>, which is not among the sources; \<^verbatim>\<open>Event.h\<close> only declares it.
  The spec (4.1): from the signed relative velocity \<open>v\<close> along the constraint direction,
  \<open>v > tol\<close> gives Separating, \<open>|v| \<le> tol\<close> gives Resting, \<open>v < -tol\<close> gives
  Impacting.
\<close>

definition classify :: "real \<Rightarrow> real \<Rightarrow> EventClass" where
  "classify v tlr =
     (if v > tlr then eSeparating
      else if \<bar>v\<bar> \<le> tlr then eResting
      else eImpacting)"

text \<open>
  \<^verbatim>\<open>Event::calc_event_vel\<close> is defined in \<^verbatim>\<open>Event.cpp\<close> too; it reads the state of
  the bodies an event refers to. It is a parameter \<open>cev\<close> of the model: the velocity of
  an event in a given state of the bodies.
\<close>

definition determine_event_class :: "(Body list \<Rightarrow> Event \<Rightarrow> real) \<Rightarrow> Body list \<Rightarrow> Event \<Rightarrow> EventClass" where
  "determine_event_class cev bs e = classify (cev bs e) (tol e)"

text \<open>\<^verbatim>\<open>Event.h\<close>, lines 39 to 41.\<close>

definition is_impacting :: "(Body list \<Rightarrow> Event \<Rightarrow> real) \<Rightarrow> Body list \<Rightarrow> Event \<Rightarrow> bool" where
  "is_impacting cev bs e = (determine_event_class cev bs e = eImpacting)"

definition is_resting :: "(Body list \<Rightarrow> Event \<Rightarrow> real) \<Rightarrow> Body list \<Rightarrow> Event \<Rightarrow> bool" where
  "is_resting cev bs e = (determine_event_class cev bs e = eResting)"

definition is_separating :: "(Body list \<Rightarrow> Event \<Rightarrow> real) \<Rightarrow> Body list \<Rightarrow> Event \<Rightarrow> bool" where
  "is_separating cev bs e = (determine_event_class cev bs e = eSeparating)"

section \<open>Collaborators and simulator state\<close>

text \<open>
  The code outside the simulator that the step calls, as parameters of the model:
  \<^item> \<open>calc_event_vel\<close>: \<^verbatim>\<open>Event::calc_event_vel\<close>, see above;
  \<^item> \<open>event_key\<close>: the identity under which \<^verbatim>\<open>EventCompare\<close> (declared outside the
    sources) files an event in \<^verbatim>\<open>std::map<Event, double, EventCompare>\<close>: two events
    are the same key of that map exactly when they have the same identity;
  \<^item> \<open>std_sort\<close>: \<^verbatim>\<open>std::sort\<close> on a vector of events, ordered by
    \<^verbatim>\<open>Event::operator<\<close>;
  \<^item> \<open>collision_detectors\<close>: \<^verbatim>\<open>CollisionDetection::is_contact(dt, x0, x1, events)\<close> of
    each registered detector, as the events it reports;
  \<^item> \<open>ab_find_limit_events\<close>: \<^verbatim>\<open>ArticulatedBody::find_limit_events(q0, q1, dt, out)\<close>;
  \<^item> \<open>process_events\<close>: \<^verbatim>\<open>ImpactEventHandler::process_events\<close>, from the events, the
    bodies and the handler's own state to the bodies and the handler's state after the
    call, with \<open>Some evs\<close> when the call raised \<^verbatim>\<open>ImpactToleranceException\<close> naming
    \<open>evs\<close> and \<open>None\<close> when it returned;
  \<^item> \<open>ode_both\<close>: \<^verbatim>\<open>DynamicBody::ode_both(x, t, dt, data, dx)\<close>, as the derivative
    \<open>dx\<close> it writes.
\<close>

record ('k, 'h) Collab =
  calc_event_vel :: "Body list \<Rightarrow> Event \<Rightarrow> real"
  event_key :: "Event \<Rightarrow> 'k"
  std_sort :: "Event list \<Rightarrow> Event list"
  collision_detectors :: "(real \<Rightarrow> (Body \<times> vec) list \<Rightarrow> (Body \<times> vec) list \<Rightarrow> Event list) list"
  ab_find_limit_events :: "Body \<Rightarrow> vec \<Rightarrow> vec \<Rightarrow> real \<Rightarrow> Event list"
  process_events :: "Event list \<Rightarrow> Body list \<Rightarrow> 'h \<Rightarrow> Event list option \<times> Body list \<times> 'h"
  ode_both :: "Body \<Rightarrow> vec \<Rightarrow> real \<Rightarrow> real \<Rightarrow> vec"

text \<open>
  The members of \<^verbatim>\<open>EventDrivenSimulator\<close> that a step reads or writes. The vectors
  \<open>q0\<close>, \<open>qf\<close> and \<open>qdf\<close> hold one entry per body (\<^verbatim>\<open>get_coords\<close> and
  \<^verbatim>\<open>get_velocities\<close> resize them to the number of bodies). The optional callbacks are
  not installed (the constructor sets them to \<^verbatim>\<open>NULL\<close>), contact points are not
  rendered, and the timers are left out.
\<close>

record ('k, 'h) Sim =
  bodies :: "Body list"
  current_time :: real
  events :: "Event list"
  q0 :: "vec list"
  qf :: "vec list"
  qdf :: "vec list"
  event_tolerances :: "'k \<rightharpoonup> real"
  contact_params :: "(base \<times> base) \<rightharpoonup> ContactParameters"
  impact_event_handler :: 'h

section \<open>Contact parameters\<close>

text \<open>\<^verbatim>\<open>make_sorted_pair\<close>: the pair with its smaller component first.\<close>

definition make_sorted_pair :: "base \<Rightarrow> base \<Rightarrow> base \<times> base" where
  "make_sorted_pair a b = (if a \<le> b then (a, b) else (b, a))"

text \<open>The first lookup of a sequence that finds an entry.\<close>

fun first_found :: "'a option list \<Rightarrow> 'a option" where
  "first_found [] = None"
| "first_found (Some p # rest) = Some p"
| "first_found (None # rest) = first_found rest"

text \<open>
  \<^verbatim>\<open>EventDrivenSimulator::get_contact_parameters\<close> (lines 70 to 136): the lookups in
  the order the code makes them. A lookup against an articulated body is made only when
  that articulated body exists.
\<close>

definition get_contact_parameters ::
  "((base \<times> base) \<rightharpoonup> ContactParameters) \<Rightarrow> CollisionGeometry \<Rightarrow> CollisionGeometry \<Rightarrow> ContactParameters option" where
  "get_contact_parameters cps geom1 geom2 =
     (let g1 = geom_id geom1; g2 = geom_id geom2;
          singlebody1 = single_body geom1; singlebody2 = single_body geom2;
          sb1 = sb_id singlebody1; sb2 = sb_id singlebody2;
          ab1 = (if is_rigid singlebody1 then articulated_body singlebody1 else None);
          ab2 = (if is_rigid singlebody2 then articulated_body singlebody2 else None)
      in first_found
        [cps (make_sorted_pair g1 g2),
         cps (make_sorted_pair g1 sb2),
         cps (make_sorted_pair g2 sb1),
         cps (make_sorted_pair sb1 sb2),
         (case ab1 of Some a1 \<Rightarrow> cps (make_sorted_pair g2 a1) | None \<Rightarrow> None),
         (case ab1 of Some a1 \<Rightarrow> cps (make_sorted_pair sb2 a1) | None \<Rightarrow> None),
         (case ab2 of Some a2 \<Rightarrow> cps (make_sorted_pair g1 a2) | None \<Rightarrow> None),
         (case ab2 of Some a2 \<Rightarrow> cps (make_sorted_pair sb1 a2) | None \<Rightarrow> None),
         (case (ab1, ab2) of (Some a1, Some a2) \<Rightarrow> cps (make_sorted_pair a1 a2) | _ \<Rightarrow> None)])"

text \<open>
  The six levels as the comment above \<^verbatim>\<open>get_contact_parameters\<close> and the spec (4.4)
  list them, each level tried as a whole before the next: (geometry, geometry), (geometry,
  rigid body), (rigid body, rigid body), (geometry, articulated body), (rigid body,
  articulated body), (articulated body, articulated body).
\<close>

definition six_level_lookup ::
  "((base \<times> base) \<rightharpoonup> ContactParameters) \<Rightarrow> CollisionGeometry \<Rightarrow> CollisionGeometry \<Rightarrow> ContactParameters option" where
  "six_level_lookup cps geom1 geom2 =
     (let g1 = geom_id geom1; g2 = geom_id geom2;
          singlebody1 = single_body geom1; singlebody2 = single_body geom2;
          sb1 = sb_id singlebody1; sb2 = sb_id singlebody2;
          ab1 = (if is_rigid singlebody1 then articulated_body singlebody1 else None);
          ab2 = (if is_rigid singlebody2 then articulated_body singlebody2 else None)
      in first_found
        [cps (make_sorted_pair g1 g2),
         cps (make_sorted_pair g1 sb2),
         cps (make_sorted_pair g2 sb1),
         cps (make_sorted_pair sb1 sb2),
         (case ab1 of Some a1 \<Rightarrow> cps (make_sorted_pair g2 a1) | None \<Rightarrow> None),
         (case ab2 of Some a2 \<Rightarrow> cps (make_sorted_pair g1 a2) | None \<Rightarrow> None),
         (case ab1 of Some a1 \<Rightarrow> cps (make_sorted_pair sb2 a1) | None \<Rightarrow> None),
         (case ab2 of Some a2 \<Rightarrow> cps (make_sorted_pair sb1 a2) | None \<Rightarrow> None),
         (case (ab1, ab2) of (Some a1, Some a2) \<Rightarrow> cps (make_sorted_pair a1 a2) | _ \<Rightarrow> None)])"

text \<open>
  \<^verbatim>\<open>Event::set_contact_parameters\<close> is defined in \<^verbatim>\<open>Event.cpp\<close>, outside the
  sources; it copies the parameters into the event's contact coefficients.
\<close>

definition set_contact_parameters :: "ContactParameters \<Rightarrow> Event \<Rightarrow> Event" where
  "set_contact_parameters cparams e =
     e\<lparr>contact_mu_coulomb := cp_mu_coulomb cparams,
       contact_mu_viscous := cp_mu_viscous cparams,
       contact_epsilon := cp_epsilon cparams,
       contact_NK := cp_NK cparams\<rparr>"

text \<open>
  \<^verbatim>\<open>EventDrivenSimulator::preprocess_event\<close> (lines 329 to 355). With no parameters
  found the code prints a warning and leaves the event as it is. After the two early
  returns the code asserts that the event is a contact (line 340) and goes on to the
  lookup; the model goes on to the lookup as the code does when the assertion is compiled
  out. The events the simulator stores are contacts (from its detectors) and limits (from
  its articulated bodies), for which the assertion holds.
\<close>

definition preprocess_event :: "((base \<times> base) \<rightharpoonup> ContactParameters) \<Rightarrow> Event \<Rightarrow> Event" where
  "preprocess_event cps e =
     (if event_type e = eLimit then e
      else if event_type e = eNone then e
      else
        (case get_contact_parameters cps (contact_geom1 e) (contact_geom2 e) of
           Some cparams \<Rightarrow> set_contact_parameters cparams e
         | None \<Rightarrow> e))"

section \<open>Handling events\<close>

text \<open>
  The \<^verbatim>\<open>catch\<close> block of \<^verbatim>\<open>handle_events\<close> (lines 307 to 315): for each event the
  exception names, in order, the table entry of its identity becomes the absolute value
  of its velocity, measured in the bodies' state after the handler ran, plus epsilon.
\<close>

definition update_tolerances ::
  "('k, 'h) Collab \<Rightarrow> Body list \<Rightarrow> Event list \<Rightarrow> ('k \<rightharpoonup> real) \<Rightarrow> ('k \<rightharpoonup> real)" where
  "update_tolerances C bs named tab =
     fold (\<lambda>ev m. m(event_key C ev \<mapsto> \<bar>calc_event_vel C bs ev\<bar> + dbl_epsilon)) named tab"

text \<open>\<^verbatim>\<open>EventDrivenSimulator::handle_events\<close> (lines 279 to 326).\<close>

definition handle_events :: "('k, 'h) Collab \<Rightarrow> ('k, 'h) Sim \<Rightarrow> ('k, 'h) Sim" where
  "handle_events C s =
     (let evs = map (preprocess_event (contact_params s)) (events s) in
      case process_events C evs (bodies s) (impact_event_handler s) of
        (None, bs, hs) \<Rightarrow> s\<lparr>events := evs, bodies := bs, impact_event_handler := hs\<rparr>
      | (Some named, bs, hs) \<Rightarrow>
          s\<lparr>events := evs, bodies := bs, impact_event_handler := hs,
            event_tolerances := update_tolerances C bs named (event_tolerances s)\<rparr>)"

section \<open>Building the event set\<close>

text \<open>\<^verbatim>\<open>get_coords\<close>, \<^verbatim>\<open>get_velocities\<close> and the loops that set every body's coordinates.\<close>

definition get_coords :: "Body list \<Rightarrow> vec list" where
  "get_coords bs = map gc bs"

definition get_velocities :: "Body list \<Rightarrow> vec list" where
  "get_velocities bs = map gv bs"

definition set_coords :: "vec list \<Rightarrow> Body list \<Rightarrow> Body list" where
  "set_coords qs bs = map2 (\<lambda>q b. b\<lparr>gc := q\<rparr>) qs bs"

text \<open>\<^verbatim>\<open>EventDrivenSimulator::find_limit_events\<close> (lines 1056 to 1072).\<close>

definition find_limit_events :: "('k, 'h) Collab \<Rightarrow> real \<Rightarrow> ('k, 'h) Sim \<Rightarrow> Event list" where
  "find_limit_events C dt s =
     concat (map (\<lambda>(ab, qa, qb). if is_articulated ab then ab_find_limit_events C ab qa qb dt else [])
                 (zip (bodies s) (zip (q0 s) (qf s))))"

text \<open>
  Lines 610 to 617: the absolute time of an event, and its tolerance from the table when
  the table has an entry for its identity.
\<close>

definition stamp_event :: "('k, 'h) Collab \<Rightarrow> real \<Rightarrow> ('k, 'h) Sim \<Rightarrow> Event \<Rightarrow> Event" where
  "stamp_event C dt s e =
     (let e1 = e\<lparr>t_true := current_time s + t e * dt\<rparr> in
      case event_tolerances s (event_key C e1) of
        Some x \<Rightarrow> e1\<lparr>tol := x\<rparr>
      | None \<Rightarrow> e1)"

text \<open>
  The identity of an event does not depend on its absolute time or its tolerance (the
  spec, 3: the identity is the contact geometry pair, or the joint and its degree of
  freedom).
\<close>

definition key_ignores_stamps :: "(Event \<Rightarrow> 'k) \<Rightarrow> bool" where
  "key_ignores_stamps k = (\<forall>e x. k (e\<lparr>t_true := x\<rparr>) = k e \<and> k (e\<lparr>tol := x\<rparr>) = k e)"

text \<open>
  The first part of \<^verbatim>\<open>find_and_handle_si_events\<close> (lines 548 to 617), which builds the
  event set: the events of every detector, then the limit events, sorted and stamped.
\<close>

definition build_events :: "('k, 'h) Collab \<Rightarrow> real \<Rightarrow> ('k, 'h) Sim \<Rightarrow> ('k, 'h) Sim" where
  "build_events C dt s =
     (let x0 = zip (bodies s) (q0 s);
          x1 = zip (bodies s) (qf s);
          cd_events = concat (map (\<lambda>cd. cd dt x0 x1) (collision_detectors C));
          limit_events = find_limit_events C dt s;
          sorted_events = std_sort C (cd_events @ limit_events)
      in s\<lparr>events := map (stamp_event C dt s) sorted_events\<rparr>)"

text \<open>
  What the C++ standard promises of \<^verbatim>\<open>std::sort\<close> with \<^verbatim>\<open>operator<\<close> comparing
  \<open>t\<close>: the result is a rearrangement of the input in which no element is followed by
  one with a smaller \<open>t\<close>. The order of elements with equal \<open>t\<close> is not promised.
\<close>

definition std_sort_result :: "Event list \<Rightarrow> Event list \<Rightarrow> bool" where
  "std_sort_result xs ys = (mset ys = mset xs \<and> sorted_wrt (\<lambda>a b. \<not> t b < t a) ys)"

definition std_sort_ok :: "(Event list \<Rightarrow> Event list) \<Rightarrow> bool" where
  "std_sort_ok srt = (\<forall>xs. std_sort_result xs (srt xs))"

section \<open>The sort of the C++ library\<close>

text \<open>
  \<^verbatim>\<open>std::sort\<close> is not code of the simulator: what it does with events of equal time is
  decided by the C++ library the program is built with. This section follows the
  \<^verbatim>\<open>std::sort\<close> of the GNU library (\<^verbatim>\<open>bits/stl_algo.h\<close>): \<^verbatim>\<open>__introsort_loop\<close>, then
  \<^verbatim>\<open>__final_insertion_sort\<close>. An iterator is an index into the vector, \<open>cmp\<close> is the
  comparison. The scans of \<^verbatim>\<open>__unguarded_partition\<close> and \<^verbatim>\<open>__unguarded_linear_insert\<close>
  have no bound check in the library, where an element of the vector stops them; the
  functions below also stop at the ends of the vector, so that they are total. When the
  depth limit is used up the library goes on with heap sort (\<^verbatim>\<open>__partial_sort\<close>), which
  is left out: \<open>introsort_loop\<close> is \<open>None\<close> there.
\<close>

text \<open>\<^verbatim>\<open>std::iter_swap\<close>.\<close>

definition iter_swap :: "'a list \<Rightarrow> nat \<Rightarrow> nat \<Rightarrow> 'a list" where
  "iter_swap xs i j = xs[i := xs ! j, j := xs ! i]"

text \<open>\<^verbatim>\<open>__move_median_to_first(result, a, b, c, comp)\<close>.\<close>

definition move_median_to_first ::
  "('a \<Rightarrow> 'a \<Rightarrow> bool) \<Rightarrow> 'a list \<Rightarrow> nat \<Rightarrow> nat \<Rightarrow> nat \<Rightarrow> nat \<Rightarrow> 'a list" where
  "move_median_to_first cmp xs result a b c =
     (if cmp (xs ! a) (xs ! b) then
        (if cmp (xs ! b) (xs ! c) then iter_swap xs result b
         else if cmp (xs ! a) (xs ! c) then iter_swap xs result c
         else iter_swap xs result a)
      else if cmp (xs ! a) (xs ! c) then iter_swap xs result a
      else if cmp (xs ! b) (xs ! c) then iter_swap xs result c
      else iter_swap xs result b)"

text \<open>The two inner loops of \<^verbatim>\<open>__unguarded_partition\<close>: \<^verbatim>\<open>while (comp(first, pivot)) ++first\<close> and \<^verbatim>\<open>while (comp(pivot, last)) --last\<close>.\<close>

function scan_up :: "('a \<Rightarrow> 'a \<Rightarrow> bool) \<Rightarrow> 'a list \<Rightarrow> nat \<Rightarrow> nat \<Rightarrow> nat" where
  "scan_up cmp xs pivot first =
     (if first < length xs \<and> cmp (xs ! first) (xs ! pivot)
      then scan_up cmp xs pivot (first + 1) else first)"
  by pat_completeness auto
termination
  by (relation "measure (\<lambda>(cmp, xs, pivot, first). length xs - first)") auto

declare scan_up.simps [simp del]

function scan_down :: "('a \<Rightarrow> 'a \<Rightarrow> bool) \<Rightarrow> 'a list \<Rightarrow> nat \<Rightarrow> nat \<Rightarrow> nat" where
  "scan_down cmp xs pivot lastp =
     (if 0 < lastp \<and> cmp (xs ! pivot) (xs ! lastp)
      then scan_down cmp xs pivot (lastp - 1) else lastp)"
  by pat_completeness auto
termination
  by (relation "measure (\<lambda>(cmp, xs, pivot, lastp). lastp)") auto

declare scan_down.simps [simp del]

lemma scan_down_le: "scan_down cmp xs pivot lastp \<le> lastp"
proof (induction cmp xs pivot lastp rule: scan_down.induct)
  case (1 cmp xs pivot lastp)
  then show ?case by (subst scan_down.simps) auto
qed

text \<open>\<^verbatim>\<open>__unguarded_partition(first, last, pivot, comp)\<close>: the iterator it returns and the vector it leaves.\<close>

function unguarded_partition ::
  "('a \<Rightarrow> 'a \<Rightarrow> bool) \<Rightarrow> 'a list \<Rightarrow> nat \<Rightarrow> nat \<Rightarrow> nat \<Rightarrow> nat \<times> 'a list" where
  "unguarded_partition cmp xs first lastp pivot =
     (let first1 = scan_up cmp xs pivot first;
          lastp1 = scan_down cmp xs pivot (lastp - 1)
      in if \<not> first1 < lastp1 then (first1, xs)
         else unguarded_partition cmp (iter_swap xs first1 lastp1) (first1 + 1) lastp1 pivot)"
  by pat_completeness auto
termination
proof (relation "measure (\<lambda>(cmp, xs, first, lastp, pivot). lastp)", goal_cases)
  case 1
  then show ?case by simp
next
  case (2 cmp xs first lastp pivot x xa)
  then have "0 < xa" by simp
  moreover have "xa \<le> lastp - 1" using 2 scan_down_le[of cmp xs pivot "lastp - 1"] by simp
  ultimately show ?case by simp
qed

declare unguarded_partition.simps [simp del]

text \<open>\<^verbatim>\<open>__unguarded_partition_pivot(first, last, comp)\<close>.\<close>

definition unguarded_partition_pivot ::
  "('a \<Rightarrow> 'a \<Rightarrow> bool) \<Rightarrow> 'a list \<Rightarrow> nat \<Rightarrow> nat \<Rightarrow> nat \<times> 'a list" where
  "unguarded_partition_pivot cmp xs first lastp =
     (let mid = first + (lastp - first) div 2;
          xs1 = move_median_to_first cmp xs first (first + 1) mid (lastp - 1)
      in unguarded_partition cmp xs1 (first + 1) lastp first)"

text \<open>\<^verbatim>\<open>__introsort_loop(first, last, depth_limit, comp)\<close>, with \<^verbatim>\<open>_S_threshold = 16\<close>.\<close>

function introsort_loop ::
  "('a \<Rightarrow> 'a \<Rightarrow> bool) \<Rightarrow> 'a list \<Rightarrow> nat \<Rightarrow> nat \<Rightarrow> nat \<Rightarrow> 'a list option" where
  "introsort_loop cmp xs first lastp depth_limit =
     (if lastp - first > 16 then
        (if depth_limit = 0 then None
         else
           (let cut = unguarded_partition_pivot cmp xs first lastp
            in case introsort_loop cmp (snd cut) (fst cut) lastp (depth_limit - 1) of
                 None \<Rightarrow> None
               | Some xs2 \<Rightarrow> introsort_loop cmp xs2 first (fst cut) (depth_limit - 1)))
      else Some xs)"
  by pat_completeness auto
termination
  by (relation "measure (\<lambda>(cmp, xs, first, lastp, depth_limit). depth_limit)") auto

declare introsort_loop.simps [simp del]

text \<open>\<^verbatim>\<open>__unguarded_linear_insert(last, comp)\<close>: its loop, from the value taken out at \<open>last\<close>.\<close>

function unguarded_linear_insert_loop ::
  "('a \<Rightarrow> 'a \<Rightarrow> bool) \<Rightarrow> 'a \<Rightarrow> 'a list \<Rightarrow> nat \<Rightarrow> 'a list" where
  "unguarded_linear_insert_loop cmp val xs lastp =
     (if 0 < lastp \<and> cmp val (xs ! (lastp - 1))
      then unguarded_linear_insert_loop cmp val (xs[lastp := xs ! (lastp - 1)]) (lastp - 1)
      else xs[lastp := val])"
  by pat_completeness auto
termination
  by (relation "measure (\<lambda>(cmp, val, xs, lastp). lastp)") auto

declare unguarded_linear_insert_loop.simps [simp del]

definition unguarded_linear_insert :: "('a \<Rightarrow> 'a \<Rightarrow> bool) \<Rightarrow> 'a list \<Rightarrow> nat \<Rightarrow> 'a list" where
  "unguarded_linear_insert cmp xs lastp = unguarded_linear_insert_loop cmp (xs ! lastp) xs lastp"

text \<open>\<^verbatim>\<open>__insertion_sort(first, last, comp)\<close>: the body of its loop at \<open>i\<close> (with \<^verbatim>\<open>move_backward\<close> as a rearrangement of the list), and the loop.\<close>

definition insertion_sort_step :: "('a \<Rightarrow> 'a \<Rightarrow> bool) \<Rightarrow> nat \<Rightarrow> nat \<Rightarrow> 'a list \<Rightarrow> 'a list" where
  "insertion_sort_step cmp first i xs =
     (if cmp (xs ! i) (xs ! first)
      then take first xs @ [xs ! i] @ take (i - first) (drop first xs) @ drop (i + 1) xs
      else unguarded_linear_insert cmp xs i)"

definition insertion_sort :: "('a \<Rightarrow> 'a \<Rightarrow> bool) \<Rightarrow> 'a list \<Rightarrow> nat \<Rightarrow> nat \<Rightarrow> 'a list" where
  "insertion_sort cmp xs first lastp =
     (if first = lastp then xs
      else fold (insertion_sort_step cmp first) [first + 1 ..< lastp] xs)"

text \<open>\<^verbatim>\<open>__unguarded_insertion_sort\<close> and \<^verbatim>\<open>__final_insertion_sort\<close>.\<close>

definition unguarded_insertion_sort :: "('a \<Rightarrow> 'a \<Rightarrow> bool) \<Rightarrow> 'a list \<Rightarrow> nat \<Rightarrow> nat \<Rightarrow> 'a list" where
  "unguarded_insertion_sort cmp xs first lastp =
     fold (\<lambda>i ys. unguarded_linear_insert cmp ys i) [first ..< lastp] xs"

definition final_insertion_sort :: "('a \<Rightarrow> 'a \<Rightarrow> bool) \<Rightarrow> 'a list \<Rightarrow> nat \<Rightarrow> nat \<Rightarrow> 'a list" where
  "final_insertion_sort cmp xs first lastp =
     (if lastp - first > 16
      then unguarded_insertion_sort cmp (insertion_sort cmp xs first (first + 16)) (first + 16) lastp
      else insertion_sort cmp xs first lastp)"

text \<open>\<^verbatim>\<open>std::__lg\<close>: the floor of the binary logarithm.\<close>

fun lg :: "nat \<Rightarrow> nat" where
  "lg n = (if n < 2 then 0 else 1 + lg (n div 2))"

declare lg.simps [simp del]

text \<open>\<^verbatim>\<open>std::__sort(first, last, comp)\<close>, which \<^verbatim>\<open>std::sort\<close> calls.\<close>

definition gnu_sort :: "('a \<Rightarrow> 'a \<Rightarrow> bool) \<Rightarrow> 'a list \<Rightarrow> 'a list option" where
  "gnu_sort cmp xs =
     (if xs = [] then Some xs
      else case introsort_loop cmp xs 0 (length xs) (lg (length xs) * 2) of
             None \<Rightarrow> None
           | Some ys \<Rightarrow> Some (final_insertion_sort cmp ys 0 (length ys)))"

text \<open>
  The library's sort on events, compared by \<^verbatim>\<open>Event::operator<\<close>. (No list sorted in this
  theory uses up the depth limit.)
\<close>

definition gnu_std_sort :: "Event list \<Rightarrow> Event list" where
  "gnu_std_sort xs = (case gnu_sort (\<lambda>a b. t a < t b) xs of Some ys \<Rightarrow> ys | None \<Rightarrow> xs)"

section \<open>The time-of-impact search\<close>

text \<open>
  The inner loop of \<^verbatim>\<open>find_TOI\<close> (lines 1136 to 1146). The iterator \<^verbatim>\<open>citer\<close> is
  the index of the event it points to, \<^verbatim>\<open>_events.end()\<close> is the length of the list.
  The loop returns the iterator it stops at and the flag \<^verbatim>\<open>impacting\<close>.
\<close>

function scan_group ::
  "(Body list \<Rightarrow> Event \<Rightarrow> real) \<Rightarrow> Body list \<Rightarrow> Event list \<Rightarrow> real \<Rightarrow> real \<Rightarrow> nat \<Rightarrow> bool \<Rightarrow> nat \<times> bool" where
  "scan_group cev bs evs dt tmin citer impacting =
     (if citer < length evs then
        (if t (evs ! citer) * dt > tmin + dbl_epsilon then (citer, impacting)
         else scan_group cev bs evs dt tmin (citer + 1)
                (if \<not> impacting then is_impacting cev bs (evs ! citer) else impacting))
      else (citer, impacting))"
  by pat_completeness auto
termination
  by (relation "measure (\<lambda>(cev, bs, evs, dt, tmin, citer, impacting). length evs - citer)") auto

declare scan_group.simps [simp del]

text \<open>The moves of the bodies in \<^verbatim>\<open>find_TOI\<close>.\<close>

text \<open>Lines 1119 to 1127: the coordinates of every body, extrapolated to \<open>h\<close>.\<close>

definition to_group :: "real \<Rightarrow> ('k, 'h) Sim \<Rightarrow> ('k, 'h) Sim" where
  "to_group h s =
     (let qf1 = map2 (\<lambda>qd q. vadd (vscale h qd) q) (qdf s) (q0 s)
      in s\<lparr>qf := qf1, bodies := set_coords qf1 (bodies s)\<rparr>)"

text \<open>Lines 1101 to 1116: the next event is later than \<open>dt\<close>.\<close>

definition toi_exit :: "real \<Rightarrow> ('k, 'h) Sim \<Rightarrow> ('k, 'h) Sim" where
  "toi_exit dt s =
     (let qf1 = map2 (\<lambda>qd q. vadd (vscale dt qd) q) (qdf s) (q0 s) in
      s\<lparr>events := [], qf := qf1, bodies := set_coords qf1 (bodies s),
        current_time := current_time s + dt\<rparr>)"

text \<open>Lines 1151 to 1167: the group at \<open>h\<close> has an impacting event; \<open>citer\<close> is where the scan stopped.\<close>

definition toi_commit :: "nat \<Rightarrow> real \<Rightarrow> ('k, 'h) Sim \<Rightarrow> ('k, 'h) Sim" where
  "toi_commit citer h s =
     (let qf1 = map (vscale h) (qdf s);
          q01 = map2 vadd (q0 s) qf1
      in s\<lparr>events := take citer (events s), qf := qf1, q0 := q01,
           bodies := set_coords q01 (bodies s),
           current_time := current_time s + h\<rparr>)"

text \<open>Lines 1173 to 1191: the loop ended.\<close>

definition toi_finish :: "real \<Rightarrow> ('k, 'h) Sim \<Rightarrow> ('k, 'h) Sim" where
  "toi_finish dt s =
     (let qf1 = map (vscale dt) (qdf s);
          q01 = map2 vadd (q0 s) qf1
      in s\<lparr>events := [], qf := qf1, q0 := q01,
           bodies := set_coords qf1 (bodies s),
           current_time := current_time s + dt\<rparr>)"

text \<open>
  The outer loop of \<^verbatim>\<open>find_TOI\<close> (lines 1089 to 1171), from the iterator \<open>citer\<close> and
  the integration performed \<open>h\<close>. \<^verbatim>\<open>_events.erase(citer, _events.end())\<close> keeps the
  events before \<open>citer\<close> and returns the new end of the vector.
\<close>

function find_TOI_loop ::
  "('k, 'h) Collab \<Rightarrow> real \<Rightarrow> nat \<Rightarrow> real \<Rightarrow> ('k, 'h) Sim \<Rightarrow> real \<times> ('k, 'h) Sim" where
  "find_TOI_loop C dt citer h s =
     (if citer < length (events s) then
        (let tmin = t (events s ! citer) * dt in
         if tmin > dt then (INF_max, toi_exit dt s)
         else
           (let h1 = h + tmin;
                s1 = to_group h1 s;
                impacting = is_impacting (calc_event_vel C) (bodies s1) (events s1 ! citer);
                scanned = scan_group (calc_event_vel C) (bodies s1) (events s1) dt tmin (citer + 1) impacting
            in if snd scanned then (h1, toi_commit (fst scanned) h1 s1)
               else
                 (let s2 = s1\<lparr>events := take (fst scanned) (events s1)\<rparr>
                  in find_TOI_loop C dt (length (events s2)) h1 s2)))
      else (INF_max, toi_finish dt s))"
  by pat_completeness auto
termination
  by (relation "measure (\<lambda>(C, dt, citer, h, s). length (events s) - citer)") auto

declare find_TOI_loop.simps [simp del]

text \<open>\<^verbatim>\<open>EventDrivenSimulator::find_TOI\<close> (lines 1075 to 1192).\<close>

definition find_TOI :: "('k, 'h) Collab \<Rightarrow> real \<Rightarrow> ('k, 'h) Sim \<Rightarrow> real \<times> ('k, 'h) Sim" where
  "find_TOI C dt s = find_TOI_loop C dt 0 0 s"

text \<open>\<^verbatim>\<open>EventDrivenSimulator::find_and_handle_si_events\<close> (lines 537 to 627).\<close>

definition find_and_handle_si_events ::
  "('k, 'h) Collab \<Rightarrow> real \<Rightarrow> ('k, 'h) Sim \<Rightarrow> real \<times> ('k, 'h) Sim" where
  "find_and_handle_si_events C dt s =
     (let found = find_TOI C dt (build_events C dt s);
          h = fst found
      in if h < dt then (h, handle_events C (snd found)) else (h, snd found))"

section \<open>The step\<close>

text \<open>
  \<^verbatim>\<open>EventDrivenSimulator::integrate_si_Euler\<close> (lines 418 to 467). The velocity a body
  stores is read in both of its representations (\<^verbatim>\<open>eSpatial\<close>, \<^verbatim>\<open>eEuler\<close>) as the
  same vector: the conversion between them belongs to the body classes, outside the
  sources.
\<close>

definition integrate_body :: "('k, 'h) Collab \<Rightarrow> real \<Rightarrow> real \<Rightarrow> Body \<Rightarrow> Body" where
  "integrate_body C tm step_size b =
     (let q = gc b; qd = gv b;
          x = q @ qd;
          dx = ode_both C b x tm step_size;
          qd1 = vadd qd (vscale step_size (drop (length q) dx));
          q1 = vadd q (vscale step_size qd1)
      in b\<lparr>gv := qd1, gc := q1\<rparr>)"

definition integrate_si_Euler :: "('k, 'h) Collab \<Rightarrow> real \<Rightarrow> ('k, 'h) Sim \<Rightarrow> ('k, 'h) Sim" where
  "integrate_si_Euler C step_size s =
     s\<lparr>bodies := map (integrate_body C (current_time s) step_size) (bodies s)\<rparr>"

text \<open>
  The loop of \<^verbatim>\<open>step\<close> (lines 503 to 527) on the time \<open>dt\<close> that remains. Nothing
  bounds the number of its iterations, so the model is a partial function: \<open>None\<close> is a
  loop that never ends.
\<close>

partial_function (option) step_loop ::
  "('k, 'h) Collab \<Rightarrow> real \<Rightarrow> ('k, 'h) Sim \<Rightarrow> ('k, 'h) Sim option" where
  "step_loop C dt s =
     (if dt > 0 then
        (let found = find_and_handle_si_events C dt s;
             tm = fst found; s1 = snd found
         in if tm > dt then Some s1
            else
              (let dt1 = dt - tm;
                   qdf1 = get_velocities (bodies s1);
                   qf1 = map2 (\<lambda>qd q. vadd (vscale dt1 qd) q) qdf1 (q0 s1)
               in step_loop C dt1 (s1\<lparr>qdf := qdf1, qf := qf1\<rparr>)))
      else Some s)"


text \<open>
  Lines 491 to 499 of \<^verbatim>\<open>step\<close>: the coordinates at the start, the integration over
  the whole step, and the coordinates and velocities at its provisional end.
\<close>

definition provisional :: "('k, 'h) Collab \<Rightarrow> real \<Rightarrow> ('k, 'h) Sim \<Rightarrow> ('k, 'h) Sim" where
  "provisional C step_size s =
     (let s1 = s\<lparr>q0 := get_coords (bodies s)\<rparr>;
          s2 = integrate_si_Euler C step_size s1
      in s2\<lparr>qf := get_coords (bodies s2), qdf := get_velocities (bodies s2)\<rparr>)"

text \<open>\<^verbatim>\<open>EventDrivenSimulator::step\<close> (lines 470 to 534): the value returned and the state left.\<close>

definition step :: "('k, 'h) Collab \<Rightarrow> real \<Rightarrow> ('k, 'h) Sim \<Rightarrow> (real \<times> ('k, 'h) Sim) option" where
  "step C step_size s =
     (case step_loop C step_size (provisional C step_size s) of
        None \<Rightarrow> None
      | Some s4 \<Rightarrow> Some (step_size, s4))"

section \<open>Example scenes\<close>

text \<open>
  Concrete bodies, events and collaborators on which the theorems below are evaluated.
  A body has one coordinate; a limit event of joint \<open>j\<close> refers to body \<open>j\<close>, and its
  velocity is that body's velocity.
\<close>

definition demo_body :: "bool \<Rightarrow> real \<Rightarrow> real \<Rightarrow> Body" where
  "demo_body ab q v = \<lparr>gc = [q], gv = [v], is_articulated = ab\<rparr>"

definition demo_geom :: "base \<Rightarrow> base \<Rightarrow> base option \<Rightarrow> CollisionGeometry" where
  "demo_geom g b ab =
     \<lparr>geom_id = g, single_body = \<lparr>sb_id = b, is_rigid = True, articulated_body = ab\<rparr>\<rparr>"

definition limit_event :: "base \<Rightarrow> real \<Rightarrow> Event" where
  "limit_event j tm =
     \<lparr>event_type = eLimit, t = tm, t_true = 0, limit_joint = j, limit_dof = 0,
      limit_upper = False, constraint_joint = 0,
      contact_geom1 = demo_geom 0 0 None, contact_geom2 = demo_geom 0 0 None,
      contact_mu_coulomb = 0, contact_mu_viscous = 0, contact_epsilon = 0, contact_NK = 4,
      tol = 1 / 2 ^ 26\<rparr>"

definition demo_vel :: "Body list \<Rightarrow> Event \<Rightarrow> real" where
  "demo_vel bs e =
     (if limit_joint e < length bs \<and> limit_dof e < length (gv (bs ! limit_joint e))
      then gv (bs ! limit_joint e) ! limit_dof e else 0)"

definition demo_key :: "Event \<Rightarrow> nat \<times> nat" where
  "demo_key e = (limit_joint e, limit_dof e)"

text \<open>A sort by \<open>t\<close>: insertion of one event after the other, behind the events of equal time.\<close>

fun insert_by_t :: "Event \<Rightarrow> Event list \<Rightarrow> Event list" where
  "insert_by_t e [] = [e]"
| "insert_by_t e (x # xs) = (if t e < t x then e # x # xs else x # insert_by_t e xs)"

definition sort_from_left :: "Event list \<Rightarrow> Event list" where
  "sort_from_left xs = fold insert_by_t xs []"

text \<open>
  Impact handlers whose state counts their invocations: one that returns and changes
  nothing, one that raises the tolerance exception naming every event it was given.
\<close>

definition handler_idle :: "Event list \<Rightarrow> Body list \<Rightarrow> nat \<Rightarrow> Event list option \<times> Body list \<times> nat" where
  "handler_idle evs bs n = (None, bs, Suc n)"

definition handler_raise :: "Event list \<Rightarrow> Body list \<Rightarrow> nat \<Rightarrow> Event list option \<times> Body list \<times> nat" where
  "handler_raise evs bs n = (Some evs, bs, Suc n)"

definition report :: "Event list \<Rightarrow> Body \<Rightarrow> vec \<Rightarrow> vec \<Rightarrow> real \<Rightarrow> Event list" where
  "report evs ab qa qb dt = evs"

definition no_force :: "Body \<Rightarrow> vec \<Rightarrow> real \<Rightarrow> real \<Rightarrow> vec" where
  "no_force b x tm dt = map (\<lambda>y. 0) x"

definition demo_collab ::
  "(Event list \<Rightarrow> Event list) \<Rightarrow> Event list \<Rightarrow>
   (Event list \<Rightarrow> Body list \<Rightarrow> nat \<Rightarrow> Event list option \<times> Body list \<times> nat) \<Rightarrow> (nat \<times> nat, nat) Collab" where
  "demo_collab srt evs pe =
     \<lparr>calc_event_vel = demo_vel, event_key = demo_key, std_sort = srt,
      collision_detectors = [], ab_find_limit_events = report evs,
      process_events = pe, ode_both = no_force\<rparr>"

definition demo_sim :: "Body list \<Rightarrow> Event list \<Rightarrow> (nat \<times> nat, nat) Sim" where
  "demo_sim bs evs =
     \<lparr>bodies = bs, current_time = 0, events = evs,
      q0 = map gc bs, qf = map gc bs, qdf = map gv bs,
      event_tolerances = Map.empty, contact_params = Map.empty,
      impact_event_handler = 0\<rparr>"

text \<open>Collaborators that report no event, and scenes of one or two bodies.\<close>

definition plain_collab :: "(nat \<times> nat, nat) Collab" where
  "plain_collab = demo_collab sort_from_left [] handler_idle"

definition scene_impact :: "(nat \<times> nat, nat) Sim" where
  "scene_impact = demo_sim [demo_body True 1 (- 1)] [limit_event 0 (1 / 2)]"

definition scene_rest_then_impact :: "(nat \<times> nat, nat) Sim" where
  "scene_rest_then_impact =
     demo_sim [demo_body True 1 0, demo_body True 1 (- 1)] [limit_event 0 (1 / 4), limit_event 1 (1 / 2)]"

definition scene_free :: "(nat \<times> nat, nat) Sim" where
  "scene_free = demo_sim [demo_body False 1 1] []"

text \<open>A body at rest at its limit: the limit event is reported in every interval.\<close>

definition resting_collab :: "(nat \<times> nat, nat) Collab" where
  "resting_collab = demo_collab sort_from_left [limit_event 0 (1 / 2)] handler_idle"

definition scene_rest :: "(nat \<times> nat, nat) Sim" where
  "scene_rest = demo_sim [demo_body True 1 0] [limit_event 0 (1 / 4)]"

text \<open>A body that approaches its limit with velocity \<open>-1\<close>; the handler raises the tolerance exception.\<close>

definition raise_collab :: "(nat \<times> nat, nat) Collab" where
  "raise_collab = demo_collab sort_from_left [limit_event 0 (1 / 2)] handler_raise"

definition scene_fall :: "(nat \<times> nat, nat) Sim" where
  "scene_fall = demo_sim [demo_body True 1 (- 1)] []"

text \<open>The same body with the impacting limit event committed for handling.\<close>

definition scene_struck :: "(nat \<times> nat, nat) Sim" where
  "scene_struck = demo_sim [demo_body True 1 (- 1)] [limit_event 0 (1 / 2)]"

text \<open>The limit event as it is built after the tolerance of its identity was learned.\<close>

definition learned_event :: Event where
  "learned_event = (limit_event 0 (1 / 2))\<lparr>t_true := 1 / 2, tol := 1 + dbl_epsilon\<rparr>"

text \<open>Two limit events reported out of order.\<close>

definition keep_collab :: "(nat \<times> nat, nat) Collab" where
  "keep_collab = demo_collab sort_from_left [limit_event 1 (3 / 4), limit_event 0 (1 / 2)] handler_idle"

text \<open>
  Two robots: geometry 1 on link 11 of robot 21, geometry 2 on link 12 of robot 22. The
  table holds parameters for (link 12, robot 21) and for (geometry 1, robot 22).
\<close>

definition params_a :: ContactParameters where
  "params_a = \<lparr>cp_epsilon = 0, cp_mu_coulomb = 1, cp_mu_viscous = 0, cp_NK = 4\<rparr>"

definition params_b :: ContactParameters where
  "params_b = \<lparr>cp_epsilon = 1, cp_mu_coulomb = 0, cp_mu_viscous = 0, cp_NK = 4\<rparr>"

definition two_robots :: "(base \<times> base) \<rightharpoonup> ContactParameters" where
  "two_robots = [make_sorted_pair 12 21 \<mapsto> params_a, make_sorted_pair 1 22 \<mapsto> params_b]"

text \<open>
  Seventeen limit events, of the joints 0 to 16, reported in this order at the same time.
\<close>

definition crowd :: "Event list" where
  "crowd = map (\<lambda>j. limit_event j (1 / 2)) [0, 1, 2, 3, 4, 5, 6, 7, 8, 9, 10, 11, 12, 13, 14, 15, 16]"

definition crowd_collab :: "(nat \<times> nat, nat) Collab" where
  "crowd_collab = demo_collab gnu_std_sort crowd handler_idle"

text \<open>
  A limit reached exactly at the end of a step of size 1, and the simulator as that step
  leaves it.
\<close>

definition end_collab :: "(nat \<times> nat, nat) Collab" where
  "end_collab = demo_collab sort_from_left [limit_event 0 1] handler_idle"

definition scene_at_limit :: "(nat \<times> nat, nat) Sim" where
  "scene_at_limit =
     (demo_sim [demo_body True 0 (- 1)] [(limit_event 0 1)\<lparr>t_true := 1\<rparr>])\<lparr>current_time := 1\<rparr>"

section \<open>Unfolding the model and the scenes\<close>

lemmas scene_defs = demo_sim_def demo_collab_def demo_body_def limit_event_def
  demo_geom_def demo_vel_def demo_key_def sort_from_left_def handler_idle_def handler_raise_def
  report_def no_force_def

lemmas model_defs = build_events_def find_limit_events_def stamp_event_def Let_def to_group_def
  toi_finish_def toi_exit_def toi_commit_def scan_group.simps is_impacting_def
  determine_event_class_def classify_def set_coords_def vadd_def vscale_def dbl_epsilon_def
  get_coords_def get_velocities_def find_and_handle_si_events_def handle_events_def
  preprocess_event_def provisional_def integrate_si_Euler_def integrate_body_def
  update_tolerances_def

lemmas gnu_sort_defs = gnu_sort_def introsort_loop.simps unguarded_partition_pivot_def
  move_median_to_first_def iter_swap_def unguarded_partition.simps scan_up.simps scan_down.simps
  final_insertion_sort_def insertion_sort_def insertion_sort_step_def unguarded_insertion_sort_def
  unguarded_linear_insert_def unguarded_linear_insert_loop.simps lg.simps Let_def

section \<open>The classes of an event\<close>

text \<open>
  C6. For an event whose tolerance is not negative (the library default and every value
  the simulator stores are positive), \<^verbatim>\<open>determine_event_class\<close> returns Separating
  exactly when \<open>v > tol\<close>, Resting exactly when \<open>|v| \<le> tol\<close> and Impacting exactly when
  \<open>v < -tol\<close>; a velocity of exactly \<open>+tol\<close> is Resting.
\<close>

theorem determine_event_class_cases:
  assumes "0 \<le> tol e"
  shows "(determine_event_class cev bs e = eSeparating \<longleftrightarrow> cev bs e > tol e)
       \<and> (determine_event_class cev bs e = eResting \<longleftrightarrow> \<bar>cev bs e\<bar> \<le> tol e)
       \<and> (determine_event_class cev bs e = eImpacting \<longleftrightarrow> cev bs e < - tol e)
       \<and> (cev bs e = tol e \<longrightarrow> is_resting cev bs e \<and> \<not> is_separating cev bs e)"
  using assms
  by (auto simp: determine_event_class_def classify_def is_resting_def is_separating_def)

theorem determine_event_class_cases_witness:
  "0 \<le> tol (limit_event 0 0)
   \<and> demo_vel [demo_body True 0 (1 / 2 ^ 26)] (limit_event 0 0) = tol (limit_event 0 0)
   \<and> determine_event_class demo_vel [demo_body True 0 (1 / 2 ^ 26)] (limit_event 0 0) = eResting
   \<and> is_resting demo_vel [demo_body True 0 (1 / 2 ^ 26)] (limit_event 0 0)
   \<and> \<not> is_separating demo_vel [demo_body True 0 (1 / 2 ^ 26)] (limit_event 0 0)"
  using determine_event_class_cases [of "limit_event 0 0" demo_vel "[demo_body True 0 (1 / 2 ^ 26)]"]
  by (simp add: limit_event_def demo_vel_def demo_body_def)

section \<open>The search examines one group of events\<close>

lemma vadd_commute: "vadd u v = vadd v u"
  unfolding vadd_def
  by (induction u arbitrary: v) (case_tac v; simp)+

lemma advance_commute:
  "map2 vadd qs (map (vscale h) qds) = map2 (\<lambda>qd q. vadd (vscale h qd) q) qds qs"
proof (induction qs arbitrary: qds)
  case Nil
  then show ?case by simp
next
  case (Cons q qs)
  then show ?case by (cases qds) (simp_all add: vadd_commute)
qed

lemma set_coords_twice: "set_coords qs (set_coords qs bs) = set_coords qs bs"
  unfolding set_coords_def
proof (induction qs arbitrary: bs)
  case Nil
  then show ?case by simp
next
  case (Cons q qs)
  then show ?case by (cases bs) simp_all
qed

lemma scan_group_ge: "citer \<le> fst (scan_group cev bs evs dt tmin citer imp)"
proof (induction cev bs evs dt tmin citer imp rule: scan_group.induct)
  case (1 cev bs evs dt tmin citer impacting)
  show ?case
    using 1 by (subst scan_group.simps) (auto simp: Let_def)
qed

lemma scan_group_impacting:
  "snd (scan_group cev bs evs dt tmin citer imp) \<Longrightarrow>
   imp \<or> (\<exists>i. citer \<le> i \<and> i < fst (scan_group cev bs evs dt tmin citer imp) \<and> i < length evs
            \<and> is_impacting cev bs (evs ! i))"
proof (induction cev bs evs dt tmin citer imp rule: scan_group.induct)
  case (1 cev bs evs dt tmin citer impacting)
  show ?case
  proof (cases "citer < length evs \<and> \<not> t (evs ! citer) * dt > tmin + dbl_epsilon")
    case False
    then show ?thesis using "1.prems" by (subst (asm) scan_group.simps) (auto split: if_splits)
  next
    case True
    let ?imp' = "if \<not> impacting then is_impacting cev bs (evs ! citer) else impacting"
    have eq: "scan_group cev bs evs dt tmin citer impacting = scan_group cev bs evs dt tmin (citer + 1) ?imp'"
      using True by (subst scan_group.simps) simp
    have "snd (scan_group cev bs evs dt tmin (citer + 1) ?imp')" using "1.prems" eq by simp
    from "1.IH"[OF _ _ this] True
    have "?imp' \<or> (\<exists>i. citer + 1 \<le> i \<and> i < fst (scan_group cev bs evs dt tmin (citer + 1) ?imp') \<and> i < length evs
            \<and> is_impacting cev bs (evs ! i))" by simp
    then show ?thesis
    proof
      assume i: "?imp'"
      show ?thesis
      proof (cases impacting)
        case True then show ?thesis by simp
      next
        case False
        with i have "is_impacting cev bs (evs ! citer)" by simp
        moreover have "citer < fst (scan_group cev bs evs dt tmin citer impacting)"
          using scan_group_ge[of "citer + 1" cev bs evs dt tmin ?imp'] eq by simp
        ultimately show ?thesis using True by blast
      qed
    next
      assume "\<exists>i. citer + 1 \<le> i \<and> i < fst (scan_group cev bs evs dt tmin (citer + 1) ?imp') \<and> i < length evs
            \<and> is_impacting cev bs (evs ! i)"
      then obtain i where "citer + 1 \<le> i" "i < fst (scan_group cev bs evs dt tmin (citer + 1) ?imp')" "i < length evs"
         "is_impacting cev bs (evs ! i)" by blast
      then show ?thesis using eq by (intro disjI2 exI[of _ i]) simp
    qed
  qed
qed

lemma find_TOI_loop_end:
  "find_TOI_loop C dt (length (events s)) h s = (INF_max, toi_finish dt s)"
  by (subst find_TOI_loop.simps) simp


lemma find_TOI_first_group:
  "find_TOI C dt s =
     (if events s = [] then (INF_max, toi_finish dt s)
      else if t (events s ! 0) * dt > dt then (INF_max, toi_exit dt s)
      else
        (let tmin = t (events s ! 0) * dt;
             s1 = to_group tmin s;
             scanned = scan_group (calc_event_vel C) (bodies s1) (events s) dt tmin 1
                         (is_impacting (calc_event_vel C) (bodies s1) (events s ! 0))
         in if snd scanned then (tmin, toi_commit (fst scanned) tmin s1)
            else (INF_max, toi_finish dt (s1\<lparr>events := take (fst scanned) (events s)\<rparr>))))"
proof (cases "events s = []")
  case True
  then show ?thesis
    using find_TOI_loop_end[of C dt s 0] by (simp add: find_TOI_def)
next
  case False
  then have pos: "0 < length (events s)" by simp
  show ?thesis
    unfolding find_TOI_def
    apply (subst find_TOI_loop.simps)
    using False pos
    apply (simp add: Let_def to_group_def del: length_greater_0_conv)
    apply (intro impI)
    apply (rule trans[OF _ find_TOI_loop_end])
    apply simp
    done
qed

lemma find_TOI_cases:
  assumes "find_TOI C dt s = (h, s')"
  shows "(h = INF_max \<and> events s' = [])
       \<or> (h \<le> dt \<and> (\<exists>e\<in>set (events s'). is_impacting (calc_event_vel C) (bodies s') e))"
proof (cases "events s = [] \<or> t (events s ! 0) * dt > dt")
  case True
  then show ?thesis using assms
    by (auto simp: find_TOI_first_group toi_finish_def toi_exit_def Let_def split: if_splits)
next
  case False
  define tmin where "tmin = t (events s ! 0) * dt"
  define s1 where "s1 = to_group tmin s"
  define scanned where "scanned = scan_group (calc_event_vel C) (bodies s1) (events s) dt tmin 1
                         (is_impacting (calc_event_vel C) (bodies s1) (events s ! 0))"
  have eq: "find_TOI C dt s = (if snd scanned then (tmin, toi_commit (fst scanned) tmin s1)
            else (INF_max, toi_finish dt (s1\<lparr>events := take (fst scanned) (events s)\<rparr>)))"
    using False by (simp add: find_TOI_first_group Let_def tmin_def s1_def scanned_def)
  show ?thesis
  proof (cases "snd scanned")
    case False
    then show ?thesis using assms eq by (auto simp: toi_finish_def Let_def)
  next
    case True
    then have h: "h = tmin" and s': "s' = toi_commit (fst scanned) tmin s1" using assms eq by auto
    have le: "tmin \<le> dt" using False by (simp add: tmin_def)
    have bs: "bodies s' = bodies s1"
      by (simp add: s' toi_commit_def Let_def s1_def to_group_def advance_commute set_coords_twice)
    have evs: "events s' = take (fst scanned) (events s)"
      by (simp add: s' toi_commit_def Let_def s1_def to_group_def)
    have ge: "1 \<le> fst scanned" unfolding scanned_def by (rule scan_group_ge)
    from scan_group_impacting[OF True[unfolded scanned_def]]
    have "\<exists>i. i < fst scanned \<and> i < length (events s) \<and> is_impacting (calc_event_vel C) (bodies s1) (events s ! i)"
    proof
      assume "is_impacting (calc_event_vel C) (bodies s1) (events s ! 0)"
      then show ?thesis using ge False by (intro exI[of _ 0]) auto
    next
      assume "\<exists>i\<ge>1. i < fst (scan_group (calc_event_vel C) (bodies s1) (events s) dt tmin 1
                         (is_impacting (calc_event_vel C) (bodies s1) (events s ! 0))) \<and> i < length (events s)
                \<and> is_impacting (calc_event_vel C) (bodies s1) (events s ! i)"
      then show ?thesis unfolding scanned_def by blast
    qed
    then obtain i where i: "i < fst scanned" "i < length (events s)"
        "is_impacting (calc_event_vel C) (bodies s1) (events s ! i)" by blast
    then have "events s ! i \<in> set (take (fst scanned) (events s))"
      by (metis nth_take length_take min_less_iff_conj nth_mem)
    then show ?thesis using i le h bs evs by auto
  qed
qed

lemma one_less_INF_max: "1 < INF_max"
  unfolding INF_max_def by simp

text \<open>
  C1 (as amended). For every call \<^verbatim>\<open>find_TOI(dt)\<close> with \<open>dt\<close> below the largest finite
  double, the value returned is either a time \<open>h \<le> dt\<close>, and then the committed event
  set holds at least one Impacting event, or the no-event sentinel, which is the largest
  finite double and so greater than \<open>dt\<close>, and then the committed event list is empty.
\<close>

theorem find_TOI_blocking_or_sentinel:
  assumes "find_TOI C dt s = (h, s')" and "dt < INF_max"
  shows "(h \<le> dt \<and> (\<exists>e\<in>set (events s'). is_impacting (calc_event_vel C) (bodies s') e))
       \<or> (dt < h \<and> h = INF_max \<and> events s' = [])"
  using find_TOI_cases[OF assms(1)] assms(2) by auto

lemma scene_impact_run:
  "find_TOI plain_collab 1 scene_impact = (1 / 2, snd (find_TOI plain_collab 1 scene_impact))"
  by (simp add: find_TOI_first_group scene_impact_def demo_sim_def plain_collab_def demo_collab_def
      Let_def to_group_def scan_group.simps is_impacting_def determine_event_class_def classify_def
      demo_vel_def demo_body_def limit_event_def set_coords_def vadd_def vscale_def)

text \<open>An impacting limit event at half of a step of length 1.\<close>

theorem find_TOI_blocking_or_sentinel_witness:
  "find_TOI plain_collab 1 scene_impact = (1 / 2, snd (find_TOI plain_collab 1 scene_impact))
   \<and> (1::real) < INF_max
   \<and> (\<exists>e\<in>set (events (snd (find_TOI plain_collab 1 scene_impact))).
         is_impacting (calc_event_vel plain_collab) (bodies (snd (find_TOI plain_collab 1 scene_impact))) e)"
  using find_TOI_blocking_or_sentinel [OF scene_impact_run one_less_INF_max] scene_impact_run one_less_INF_max
  by simp

text \<open>
  The claim C1 as stated, that \<^verbatim>\<open>find_TOI\<close> never returns \<open>h > dt\<close>, fails: with no
  candidate event and \<open>dt = 1\<close> it returns the sentinel, which is greater than 1.
\<close>

theorem find_TOI_sentinel_exceeds_dt:
  "fst (find_TOI plain_collab 1 (demo_sim [demo_body True 1 (- 1)] [])) > 1"
  using one_less_INF_max by (simp add: find_TOI_first_group demo_sim_def)

text \<open>
  C3. What the code does when the first simultaneous group holds no Impacting event:
  \<^verbatim>\<open>citer = _events.erase(citer, _events.end())\<close> discards the candidates that were not
  examined and leaves the iterator at the end, so the walk stops; the bodies are
  integrated to \<open>dt\<close> and the sentinel is returned, whatever the later candidates are.
\<close>

theorem find_TOI_stops_after_first_group:
  assumes "events s \<noteq> []" and "t (events s ! 0) * dt \<le> dt"
      and "\<not> snd (scan_group (calc_event_vel C) (bodies (to_group (t (events s ! 0) * dt) s)) (events s) dt
                   (t (events s ! 0) * dt) 1
                   (is_impacting (calc_event_vel C) (bodies (to_group (t (events s ! 0) * dt) s)) (events s ! 0)))"
  shows "fst (find_TOI C dt s) = INF_max \<and> events (snd (find_TOI C dt s)) = []
       \<and> current_time (snd (find_TOI C dt s)) = current_time s + dt"
  using assms by (simp add: find_TOI_first_group Let_def toi_finish_def to_group_def)

text \<open>
  A resting event at a quarter of the step and an impacting event at half of it: the
  impacting event is never examined.
\<close>

theorem find_TOI_stops_after_first_group_witness:
  "events scene_rest_then_impact = [limit_event 0 (1 / 4), limit_event 1 (1 / 2)]
   \<and> t (events scene_rest_then_impact ! 0) * 1 \<le> (1::real)
   \<and> t (limit_event 1 (1 / 2)) * 1 \<le> (1::real)
   \<and> is_impacting (calc_event_vel plain_collab) (bodies (to_group (1 / 4) scene_rest_then_impact)) (limit_event 1 (1 / 2))
   \<and> is_impacting (calc_event_vel plain_collab) (bodies (to_group (1 / 2) scene_rest_then_impact)) (limit_event 1 (1 / 2))
   \<and> fst (find_TOI plain_collab 1 scene_rest_then_impact) = INF_max
   \<and> events (snd (find_TOI plain_collab 1 scene_rest_then_impact)) = []
   \<and> current_time (snd (find_TOI plain_collab 1 scene_rest_then_impact)) = 1"
  using find_TOI_stops_after_first_group [of scene_rest_then_impact 1 plain_collab]
  by (simp add: scene_rest_then_impact_def demo_sim_def plain_collab_def demo_collab_def
      Let_def to_group_def scan_group.simps is_impacting_def determine_event_class_def classify_def
      demo_vel_def demo_body_def limit_event_def set_coords_def vadd_def vscale_def dbl_epsilon_def)

section \<open>A step without candidate events\<close>

lemma find_TOI_no_events:
  "events s = [] \<Longrightarrow> find_TOI C dt s = (INF_max, toi_finish dt s)"
  by (simp add: find_TOI_first_group)

lemma step_loop_break:
  "0 < dt \<Longrightarrow> dt < fst (find_and_handle_si_events C dt s) \<Longrightarrow>
   step_loop C dt s = Some (snd (find_and_handle_si_events C dt s))"
  by (subst step_loop.simps) (simp add: Let_def)

lemma get_coords_set_coords:
  "length qs = length bs \<Longrightarrow> get_coords (set_coords qs bs) = qs"
  unfolding get_coords_def set_coords_def
  by (induction qs bs rule: list_induct2) simp_all

lemma provisional_lengths:
  "length (qdf (provisional C step_size s)) = length (bodies (provisional C step_size s))"
  by (simp add: provisional_def Let_def get_velocities_def)

text \<open>
  C5. What the code does in a step whose event set is empty: the step returns, the time
  advances by the step size, and the coordinates it leaves in the bodies are the end
  velocities multiplied by the step size (lines 1180 to 1186 add the start coordinates
  to \<^verbatim>\<open>_q0\<close> and not to \<^verbatim>\<open>_qf\<close>), not the coordinates of the provisional end state.
\<close>

theorem step_without_candidates:
  assumes "0 < step_size" and "step_size < INF_max"
      and "events (build_events C step_size (provisional C step_size s)) = []"
  shows "\<exists>s'. step C step_size s = Some (step_size, s')
           \<and> get_coords (bodies s') = map (vscale step_size) (qdf (provisional C step_size s))
           \<and> current_time s' = current_time s + step_size
           \<and> events s' = []"
proof -
  define P where "P = provisional C step_size s"
  define B where "B = build_events C step_size P"
  have B: "B = P\<lparr>events := []\<rparr>"
    using assms(3) unfolding B_def P_def build_events_def Let_def by simp
  have found: "find_and_handle_si_events C step_size P = (INF_max, toi_finish step_size B)"
    using assms(2,3) unfolding find_and_handle_si_events_def B_def P_def
    by (simp add: find_TOI_no_events Let_def)
  have loop: "step_loop C step_size P = Some (toi_finish step_size B)"
    using step_loop_break[of step_size C P] assms(1,2) found by simp
  have tm: "current_time P = current_time s"
    by (simp add: P_def provisional_def Let_def integrate_si_Euler_def)
  have len: "length (map (vscale step_size) (qdf P)) = length (bodies P)"
    using provisional_lengths[of C step_size s] by (simp add: P_def)
  have "get_coords (bodies (toi_finish step_size B)) = map (vscale step_size) (qdf P)"
    using get_coords_set_coords[OF len] by (simp add: toi_finish_def Let_def B)
  moreover have "current_time (toi_finish step_size B) = current_time s + step_size"
    by (simp add: toi_finish_def Let_def B tm)
  moreover have "events (toi_finish step_size B) = []"
    by (simp add: toi_finish_def Let_def)
  ultimately show ?thesis
    using loop by (simp add: step_def P_def)
qed

lemma scene_free_provisional:
  "provisional plain_collab 1 scene_free =
     scene_free\<lparr>bodies := [demo_body False 2 1], qf := [[2]]\<rparr>"
  by (simp add: provisional_def Let_def scene_free_def demo_sim_def plain_collab_def demo_collab_def
      integrate_si_Euler_def integrate_body_def demo_body_def no_force_def vadd_def vscale_def
      get_coords_def get_velocities_def)

text \<open>
  One free body at coordinate 1 with velocity 1 and no force, step size 1: the
  provisional end state has coordinate 2, the step leaves coordinate 1.
\<close>

theorem step_without_candidates_witness:
  "(0::real) < 1 \<and> 1 < INF_max
   \<and> events (build_events plain_collab 1 (provisional plain_collab 1 scene_free)) = []
   \<and> get_coords (bodies (provisional plain_collab 1 scene_free)) = [[2]]
   \<and> (\<exists>s'. step plain_collab 1 scene_free = Some (1, s') \<and> get_coords (bodies s') = [[1]])"
proof -
  have b: "events (build_events plain_collab 1 (provisional plain_collab 1 scene_free)) = []"
    by (simp only: scene_free_provisional)
       (simp add: build_events_def find_limit_events_def Let_def
        scene_free_def demo_sim_def plain_collab_def demo_collab_def demo_body_def
        sort_from_left_def stamp_event_def)
  have v: "map (vscale 1) (qdf (provisional plain_collab 1 scene_free)) = [[1]]"
    by (simp only: scene_free_provisional) (simp add: scene_free_def demo_sim_def demo_body_def vscale_def)
  have c: "get_coords (bodies (provisional plain_collab 1 scene_free)) = [[2]]"
    by (simp only: scene_free_provisional) (simp add: get_coords_def demo_body_def)
  show ?thesis
    using step_without_candidates [of 1 plain_collab scene_free, OF _ one_less_INF_max b]
      one_less_INF_max b c v
    by auto
qed

section \<open>The event list after a search without event\<close>

text \<open>
  C10 (as amended). Whenever \<^verbatim>\<open>find_TOI\<close> returns its no-blocking-event value (a value
  greater than \<open>dt\<close>, which is how its callers test for it), the stored event list is
  empty afterwards. Consequently, after a step of positive size in which no search found an
  impacting event (its first search returns the no-event value, and that ends the step),
  the stored event list is empty. A step whose size is not positive makes no search and
  leaves the stored list as it was.
\<close>

theorem no_event_leaves_no_events:
  "(find_TOI C dt s = (h, s1) \<and> dt < h \<longrightarrow> events s1 = [])
   \<and> (0 < dt \<and> dt < fst (find_and_handle_si_events C dt (provisional C dt s)) \<longrightarrow>
        step C dt s = Some (dt, snd (find_and_handle_si_events C dt (provisional C dt s)))
        \<and> events (snd (find_and_handle_si_events C dt (provisional C dt s))) = [])
   \<and> (dt \<le> 0 \<longrightarrow> step C dt s = Some (dt, provisional C dt s)
        \<and> events (provisional C dt s) = events s)"
proof (intro conjI impI)
  assume "find_TOI C dt s = (h, s1) \<and> dt < h"
  then show "events s1 = []" using find_TOI_cases[of C dt s h s1] by auto
next
  assume a: "0 < dt \<and> dt < fst (find_and_handle_si_events C dt (provisional C dt s))"
  then show "step C dt s = Some (dt, snd (find_and_handle_si_events C dt (provisional C dt s)))"
    using step_loop_break[of dt C "provisional C dt s"] by (simp add: step_def)
  obtain h1 s1 where f: "find_TOI C dt (build_events C dt (provisional C dt s)) = (h1, s1)" by fastforce
  from find_TOI_cases[OF f] f a
  show "events (snd (find_and_handle_si_events C dt (provisional C dt s))) = []"
    unfolding find_and_handle_si_events_def by (auto simp: Let_def split: if_splits)
next
  assume "dt \<le> 0"
  then have "step_loop C dt (provisional C dt s) = Some (provisional C dt s)"
    by (subst step_loop.simps) simp
  then show "step C dt s = Some (dt, provisional C dt s)" by (simp add: step_def)
next
  show "events (provisional C dt s) = events s"
    by (simp add: provisional_def Let_def integrate_si_Euler_def)
qed

lemma scene_rest_found:
  "find_TOI plain_collab 1 scene_rest = (INF_max, snd (find_TOI plain_collab 1 scene_rest))"
  by (simp add: find_TOI_first_group scene_rest_def plain_collab_def scene_defs model_defs)

lemma scene_rest_search:
  "fst (find_and_handle_si_events resting_collab 1 (provisional resting_collab 1 scene_rest)) = INF_max"
  by (simp add: find_TOI_first_group scene_rest_def resting_collab_def scene_defs model_defs)

text \<open>A resting limit event: the search clears the list, and so does a step of size 1; a step of size 0 keeps the list.\<close>

theorem no_event_leaves_no_events_witness:
  "find_TOI plain_collab 1 scene_rest = (INF_max, snd (find_TOI plain_collab 1 scene_rest))
   \<and> 1 < INF_max
   \<and> events scene_rest = [limit_event 0 (1 / 4)]
   \<and> events (snd (find_TOI plain_collab 1 scene_rest)) = []
   \<and> fst (find_and_handle_si_events resting_collab 1 (provisional resting_collab 1 scene_rest)) = INF_max
   \<and> step resting_collab 1 scene_rest
       = Some (1, snd (find_and_handle_si_events resting_collab 1 (provisional resting_collab 1 scene_rest)))
   \<and> events (snd (find_and_handle_si_events resting_collab 1 (provisional resting_collab 1 scene_rest))) = []
   \<and> step resting_collab 0 scene_rest = Some (0, provisional resting_collab 0 scene_rest)
   \<and> events (provisional resting_collab 0 scene_rest) = [limit_event 0 (1 / 4)]"
proof -
  note th = no_event_leaves_no_events [of plain_collab 1 scene_rest INF_max "snd (find_TOI plain_collab 1 scene_rest)"]
  note th2 = no_event_leaves_no_events [of resting_collab 1 scene_rest INF_max "snd (find_TOI resting_collab 1 scene_rest)"]
  note th3 = no_event_leaves_no_events [of resting_collab 0 scene_rest INF_max "snd (find_TOI resting_collab 0 scene_rest)"]
  have a: "events (snd (find_TOI plain_collab 1 scene_rest)) = []"
    using th scene_rest_found one_less_INF_max by simp
  have b: "step resting_collab 1 scene_rest
       = Some (1, snd (find_and_handle_si_events resting_collab 1 (provisional resting_collab 1 scene_rest)))
     \<and> events (snd (find_and_handle_si_events resting_collab 1 (provisional resting_collab 1 scene_rest))) = []"
    using th2 scene_rest_search one_less_INF_max by simp
  have c: "step resting_collab 0 scene_rest = Some (0, provisional resting_collab 0 scene_rest)
     \<and> events (provisional resting_collab 0 scene_rest) = events scene_rest"
    using th3 by simp
  show ?thesis using a b c scene_rest_found scene_rest_search one_less_INF_max
    by (simp add: scene_rest_def demo_sim_def)
qed

lemma step_to_limit:
  "step end_collab 1 scene_fall = Some (1, scene_at_limit)"
  unfolding step_def
  apply (subst step_loop.simps)
  apply (simp add: find_TOI_first_group scene_fall_def end_collab_def scene_defs model_defs)
  apply (subst step_loop.simps)
  apply (simp add: scene_at_limit_def scene_defs)
  done

text \<open>
  The claim C10 as stated, that after any step in which no impacting event was found the
  event list is empty, fails for a step of size 0: a step of size 1 that reaches a limit
  exactly at its end leaves the limit event in the list, and the step of size 0 that
  follows makes no search, finds no impacting event and leaves that list as it is.
\<close>

theorem step_zero_keeps_events:
  "step end_collab 1 scene_fall = Some (1, scene_at_limit)
   \<and> events scene_at_limit = [(limit_event 0 1)\<lparr>t_true := 1\<rparr>]
   \<and> step end_collab 0 scene_at_limit = Some (0, scene_at_limit)"
proof -
  have "provisional end_collab 0 scene_at_limit = scene_at_limit"
    by (simp add: provisional_def Let_def integrate_si_Euler_def integrate_body_def scene_at_limit_def
        end_collab_def scene_defs get_coords_def get_velocities_def vadd_def vscale_def)
  then have "step end_collab 0 scene_at_limit = Some (0, scene_at_limit)"
    unfolding step_def by (subst step_loop.simps) simp
  then show ?thesis using step_to_limit by (simp add: scene_at_limit_def demo_sim_def)
qed

section \<open>The value a step returns\<close>






section \<open>The tolerance table\<close>

lemma fold_update_lookup:
  "fold (\<lambda>ev m. m(key ev \<mapsto> f ev)) xs m k =
     (case filter (\<lambda>x. key x = k) xs of [] \<Rightarrow> m k | y # ys \<Rightarrow> Some (f (last (y # ys))))"
proof (induction xs arbitrary: m)
  case Nil
  then show ?case by simp
next
  case (Cons x xs)
  have "fold (\<lambda>ev m. m(key ev \<mapsto> f ev)) (x # xs) m k
      = fold (\<lambda>ev m. m(key ev \<mapsto> f ev)) xs (m(key x \<mapsto> f x)) k"
    by simp
  also have "\<dots> = (case filter (\<lambda>x. key x = k) xs of
                      [] \<Rightarrow> (m(key x \<mapsto> f x)) k
                    | y # ys \<Rightarrow> Some (f (last (y # ys))))"
    by (rule Cons.IH)
  also have "\<dots> = (case filter (\<lambda>x. key x = k) (x # xs) of
                      [] \<Rightarrow> m k
                    | y # ys \<Rightarrow> Some (f (last (y # ys))))"
    by (cases "filter (\<lambda>x. key x = k) xs") auto
  finally show ?case .
qed

lemma update_tolerances_lookup:
  "update_tolerances C bs named tab k =
     (case filter (\<lambda>x. event_key C x = k) named of
        [] \<Rightarrow> tab k
      | y # ys \<Rightarrow> Some (\<bar>calc_event_vel C bs (last (y # ys))\<bar> + dbl_epsilon))"
  unfolding update_tolerances_def
  by (rule fold_update_lookup)

lemma update_tolerances_named:
  assumes "ev \<in> set named"
  shows "update_tolerances C bs named tab (event_key C ev) =
     Some (\<bar>calc_event_vel C bs (last (filter (\<lambda>x. event_key C x = event_key C ev) named))\<bar> + dbl_epsilon)"
proof -
  have "ev \<in> set (filter (\<lambda>x. event_key C x = event_key C ev) named)" using assms by simp
  then obtain y ys where "filter (\<lambda>x. event_key C x = event_key C ev) named = y # ys"
    by (cases "filter (\<lambda>x. event_key C x = event_key C ev) named") auto
  then show ?thesis by (simp add: update_tolerances_lookup)
qed

lemma update_tolerances_other:
  assumes "k \<notin> event_key C ` set named"
  shows "update_tolerances C bs named tab k = tab k"
proof -
  have "filter (\<lambda>x. event_key C x = k) named = []"
    using assms by (auto simp: filter_empty_conv)
  then show ?thesis by (simp add: update_tolerances_lookup)
qed

text \<open>
  C2 (as amended). When impulse resolution raises a tolerance violation naming a subset of
  events, \<^verbatim>\<open>handle_events\<close> sets the table entry of each named event's identity to the
  absolute value of the measured velocity plus epsilon (of the last event named with that
  identity), leaves every other entry as it was, and returns to the stepping loop: the
  handler's state is the one its single call left, resolution is not tried again.
\<close>

theorem handle_events_single_call:
  assumes "process_events C (map (preprocess_event (contact_params s)) (events s)) (bodies s)
             (impact_event_handler s) = (Some named, bs, hs)"
  shows "impact_event_handler (handle_events C s) = hs
       \<and> bodies (handle_events C s) = bs
       \<and> events (handle_events C s) = map (preprocess_event (contact_params s)) (events s)
       \<and> (\<forall>ev\<in>set named. event_tolerances (handle_events C s) (event_key C ev) =
             Some (\<bar>calc_event_vel C bs (last (filter (\<lambda>x. event_key C x = event_key C ev) named))\<bar>
                   + dbl_epsilon))
       \<and> (\<forall>k. k \<notin> event_key C ` set named \<longrightarrow>
             event_tolerances (handle_events C s) k = event_tolerances s k)"
  using assms
  by (simp add: handle_events_def Let_def update_tolerances_named update_tolerances_other)

lemma scene_struck_raise:
  "process_events raise_collab (map (preprocess_event (contact_params scene_struck)) (events scene_struck))
     (bodies scene_struck) (impact_event_handler scene_struck)
   = (Some [limit_event 0 (1 / 2)], [demo_body True 1 (- 1)], 1)"
  by (simp add: raise_collab_def scene_struck_def demo_collab_def demo_sim_def handler_raise_def
      preprocess_event_def limit_event_def)

text \<open>The handler that raises, on one impacting limit event with velocity \<open>-1\<close>.\<close>

theorem handle_events_single_call_witness:
  "process_events raise_collab (map (preprocess_event (contact_params scene_struck)) (events scene_struck))
     (bodies scene_struck) (impact_event_handler scene_struck)
   = (Some [limit_event 0 (1 / 2)], [demo_body True 1 (- 1)], 1)
   \<and> impact_event_handler (handle_events raise_collab scene_struck) = 1
   \<and> event_tolerances (handle_events raise_collab scene_struck) (0, 0) = Some (1 + dbl_epsilon)
   \<and> event_tolerances (handle_events raise_collab scene_struck) (1, 0) = None"
  using handle_events_single_call [OF scene_struck_raise] scene_struck_raise
  by (simp add: raise_collab_def demo_collab_def demo_key_def demo_vel_def demo_body_def
      limit_event_def scene_struck_def demo_sim_def)

text \<open>
  The claim C2 as stated, that resolution of the same event set is tried again before
  control returns to the stepping loop, fails: the handler counts its invocations, it
  raises the tolerance exception, and after \<^verbatim>\<open>handle_events\<close> its count is 1.
\<close>

theorem handle_events_no_retry:
  "events scene_struck = [limit_event 0 (1 / 2)]
   \<and> impact_event_handler scene_struck = 0
   \<and> handler_raise (events scene_struck) (bodies scene_struck) 0
       = (Some [limit_event 0 (1 / 2)], bodies scene_struck, 1)
   \<and> impact_event_handler (handle_events raise_collab scene_struck) = 1"
  by (simp add: raise_collab_def scene_struck_def demo_collab_def demo_sim_def handler_raise_def
      preprocess_event_def limit_event_def handle_events_def Let_def)

section \<open>Learned tolerances\<close>

lemma t_stamp_event [simp]: "t (stamp_event C dt s e) = t e"
  by (simp add: stamp_event_def Let_def split: option.splits)

lemma stamp_event_tol:
  assumes "key_ignores_stamps (event_key C)"
  shows "tol (stamp_event C dt s e) =
           (case event_tolerances s (event_key C e) of Some x \<Rightarrow> x | None \<Rightarrow> tol e)"
    and "event_key C (stamp_event C dt s e) = event_key C e"
  using assms
  by (auto simp: stamp_event_def Let_def key_ignores_stamps_def split: option.splits)

text \<open>
  C7. After the handler of a tolerance violation recorded the measured velocity \<open>m\<close> of
  an event for its identity, every candidate event of the same identity that is built
  while the table holds that entry has tolerance \<open>|m|\<close> plus epsilon, so with a velocity
  \<open>v\<close> such that \<open>|v| \<le> |m|\<close> (in particular \<open>|v| \<le> m\<close>) it is Resting and not Impacting.
\<close>

theorem learned_tolerance_gives_resting:
  assumes "process_events C (map (preprocess_event (contact_params s)) (events s)) (bodies s)
             (impact_event_handler s) = (Some named, bs, hs)"
      and "ev \<in> set named"
      and "last (filter (\<lambda>x. event_key C x = event_key C ev) named) = ev"
      and "m = calc_event_vel C bs ev"
      and "key_ignores_stamps (event_key C)"
      and "event_tolerances s1 = event_tolerances (handle_events C s)"
      and "e \<in> set (events (build_events C dt s1))"
      and "event_key C e = event_key C ev"
      and "\<bar>calc_event_vel C bs1 e\<bar> \<le> \<bar>m\<bar>"
  shows "tol e = \<bar>m\<bar> + dbl_epsilon
       \<and> is_resting (calc_event_vel C) bs1 e
       \<and> \<not> is_impacting (calc_event_vel C) bs1 e"
proof -
  from assms(7) obtain e0 where e0: "e = stamp_event C dt s1 e0"
    by (auto simp: build_events_def Let_def)
  have k: "event_key C e0 = event_key C ev"
    using stamp_event_tol(2)[OF assms(5), of dt s1 e0] assms(8) e0 by simp
  have tab: "event_tolerances s1 (event_key C ev) = Some (\<bar>m\<bar> + dbl_epsilon)"
    using handle_events_def update_tolerances_named[OF assms(2), of C bs "event_tolerances s"] assms(1,3,4,6)
    by (simp add: handle_events_def Let_def)
  have tl: "tol e = \<bar>m\<bar> + dbl_epsilon"
    using stamp_event_tol(1)[OF assms(5), of dt s1 e0] k tab e0 by simp
  have "0 < dbl_epsilon" by (simp add: dbl_epsilon_def)
  then have "classify (calc_event_vel C bs1 e) (tol e) = eResting"
    using assms(9) tl by (auto simp: classify_def)
  then show ?thesis
    using tl by (simp add: is_resting_def is_impacting_def determine_event_class_def)
qed

lemma demo_key_ignores_stamps: "key_ignores_stamps demo_key"
  by (simp add: key_ignores_stamps_def demo_key_def)

lemma scene_struck_rebuilt:
  "events (build_events raise_collab 1 (handle_events raise_collab scene_struck)) = [learned_event]"
  by (simp add: learned_event_def raise_collab_def scene_struck_def scene_defs model_defs)

text \<open>
  The limit event with velocity \<open>-1\<close> is impacting with the default tolerance and resting
  once the handler has recorded its velocity.
\<close>

theorem learned_tolerance_gives_resting_witness:
  "process_events raise_collab (map (preprocess_event (contact_params scene_struck)) (events scene_struck))
     (bodies scene_struck) (impact_event_handler scene_struck)
   = (Some [limit_event 0 (1 / 2)], [demo_body True 1 (- 1)], 1)
   \<and> calc_event_vel raise_collab [demo_body True 1 (- 1)] (limit_event 0 (1 / 2)) = - 1
   \<and> is_impacting (calc_event_vel raise_collab) [demo_body True 1 (- 1)] (limit_event 0 (1 / 2))
   \<and> key_ignores_stamps (event_key raise_collab)
   \<and> events (build_events raise_collab 1 (handle_events raise_collab scene_struck)) = [learned_event]
   \<and> event_key raise_collab learned_event = event_key raise_collab (limit_event 0 (1 / 2))
   \<and> calc_event_vel raise_collab [demo_body True 1 (- 1)] learned_event = - 1
   \<and> tol learned_event = 1 + dbl_epsilon
   \<and> is_resting (calc_event_vel raise_collab) [demo_body True 1 (- 1)] learned_event
   \<and> \<not> is_impacting (calc_event_vel raise_collab) [demo_body True 1 (- 1)] learned_event"
proof -
  have v: "calc_event_vel raise_collab [demo_body True 1 (- 1)] (limit_event 0 (1 / 2)) = - 1"
    "calc_event_vel raise_collab [demo_body True 1 (- 1)] learned_event = - 1"
    by (simp_all add: raise_collab_def learned_event_def scene_defs)
  have k: "key_ignores_stamps (event_key raise_collab)"
    using demo_key_ignores_stamps by (simp add: raise_collab_def demo_collab_def)
  have ke: "event_key raise_collab learned_event = event_key raise_collab (limit_event 0 (1 / 2))"
    by (simp add: raise_collab_def learned_event_def scene_defs)
  have imp: "is_impacting (calc_event_vel raise_collab) [demo_body True 1 (- 1)] (limit_event 0 (1 / 2))"
    by (simp add: raise_collab_def scene_defs is_impacting_def determine_event_class_def classify_def)
  have mem: "learned_event \<in> set (events (build_events raise_collab 1 (handle_events raise_collab scene_struck)))"
    by (simp add: scene_struck_rebuilt)
  have "tol learned_event = \<bar>- 1\<bar> + dbl_epsilon
       \<and> is_resting (calc_event_vel raise_collab) [demo_body True 1 (- 1)] learned_event
       \<and> \<not> is_impacting (calc_event_vel raise_collab) [demo_body True 1 (- 1)] learned_event"
    by (rule learned_tolerance_gives_resting
          [OF scene_struck_raise _ _ _ k refl mem ke, where m = "- 1" and ?bs1.0 = "[demo_body True 1 (- 1)]"])
       (simp_all add: v)
  then show ?thesis using scene_struck_raise v k ke imp scene_struck_rebuilt by simp
qed

section \<open>The order of the built events\<close>

lemma mset_insert_by_t: "mset (insert_by_t e xs) = add_mset e (mset xs)"
  by (induction xs) simp_all

lemma set_insert_by_t: "set (insert_by_t e xs) = insert e (set xs)"
  by (induction xs) auto

lemma sorted_insert_by_t:
  "sorted_wrt (\<lambda>a b. \<not> t b < t a) xs \<Longrightarrow> sorted_wrt (\<lambda>a b. \<not> t b < t a) (insert_by_t e xs)"
  by (induction xs) (auto simp: set_insert_by_t)

lemma fold_insert_by_t:
  "sorted_wrt (\<lambda>a b. \<not> t b < t a) acc \<Longrightarrow>
   mset (fold insert_by_t xs acc) = mset xs + mset acc
   \<and> sorted_wrt (\<lambda>a b. \<not> t b < t a) (fold insert_by_t xs acc)"
  by (induction xs arbitrary: acc) (simp_all add: mset_insert_by_t sorted_insert_by_t)

lemma sort_from_left_ok: "std_sort_ok sort_from_left"
  using fold_insert_by_t[of "[]"]
  by (simp add: std_sort_ok_def std_sort_result_def sort_from_left_def)

text \<open>
  C4 (as amended). Every event set built by the event-set builder is sorted ascending by
  normalized time, so events with exactly equal time are contiguous. (Their order among
  themselves is whatever \<^verbatim>\<open>std::sort\<close> leaves: it is not a stable sort.)
\<close>

theorem built_events_sorted:
  assumes "std_sort_ok (std_sort C)"
  shows "sorted_wrt (\<lambda>a b. t a \<le> t b) (events (build_events C dt s))
       \<and> (\<forall>i j k. i < j \<and> j < k \<and> k < length (events (build_events C dt s))
              \<and> t (events (build_events C dt s) ! i) = t (events (build_events C dt s) ! k)
            \<longrightarrow> t (events (build_events C dt s) ! j) = t (events (build_events C dt s) ! i))"
proof -
  define xs where "xs = events (build_events C dt s)"
  obtain ys where ys: "xs = map (stamp_event C dt s) (std_sort C ys)"
    by (auto simp: xs_def build_events_def Let_def)
  have "sorted_wrt (\<lambda>a b. \<not> t b < t a) (std_sort C ys)"
    using assms by (simp add: std_sort_ok_def std_sort_result_def)
  then have srt: "sorted_wrt (\<lambda>a b. t a \<le> t b) xs"
    by (simp add: ys sorted_wrt_map not_less)
  have "t (xs ! j) = t (xs ! i)" if "i < j" "j < k" "k < length xs" "t (xs ! i) = t (xs ! k)" for i j k
  proof -
    have "t (xs ! i) \<le> t (xs ! j)"
      using sorted_wrt_nth_less[OF srt, of i j] that(1,2,3) by linarith
    moreover have "t (xs ! j) \<le> t (xs ! k)"
      using sorted_wrt_nth_less[OF srt, of j k] that(2,3) by linarith
    ultimately show ?thesis using that(4) by linarith
  qed
  then show ?thesis using srt unfolding xs_def by blast
qed

lemma keep_collab_ok: "std_sort_ok (std_sort keep_collab)"
  using sort_from_left_ok by (simp add: keep_collab_def demo_collab_def)

text \<open>Events reported at times 3/4 and 1/2 are built in the order 1/2, 3/4.\<close>

theorem built_events_sorted_witness:
  "std_sort_ok (std_sort keep_collab)
   \<and> map t (events (build_events keep_collab 1 scene_fall)) = [1 / 2, 3 / 4]
   \<and> sorted_wrt (\<lambda>a b. t a \<le> t b) (events (build_events keep_collab 1 scene_fall))"
  using built_events_sorted [OF keep_collab_ok, of 1 scene_fall] keep_collab_ok
  by (simp add: keep_collab_def scene_fall_def scene_defs model_defs)

lemma t_limit_event: "t (limit_event j tm) = tm"
  by (simp add: limit_event_def)

lemma crowd_sorted:
  "gnu_sort (\<lambda>a b. t a < t b) crowd
     = Some (map (\<lambda>j. limit_event j (1 / 2)) [8, 16, 15, 14, 13, 12, 11, 10, 9, 0, 7, 6, 5, 4, 3, 2, 1])"
  by (simp add: crowd_def gnu_sort_defs upt_rec t_limit_event)

lemma limit_joint_stamp_event: "limit_joint (stamp_event C dt s e) = limit_joint e"
  by (simp add: stamp_event_def Let_def split: option.splits)

text \<open>
  The claim C4 as stated, that events of equal time keep the order they had before the
  sort, fails: seventeen limit events reported at the same time, of the joints 0 to 16 in
  this order, are built in the order 8, 16, 15, 14, 13, 12, 11, 10, 9, 0, 7, 6, 5, 4, 3,
  2, 1. (With more than 16 events the library's sort partitions: it swaps the first event
  with the middle one and then the events on either side of the middle.)
\<close>

theorem equal_times_reordered:
  "map limit_joint (ab_find_limit_events crowd_collab (demo_body True 1 (- 1)) [1] [0] 1)
     = [0, 1, 2, 3, 4, 5, 6, 7, 8, 9, 10, 11, 12, 13, 14, 15, 16]
   \<and> map t (ab_find_limit_events crowd_collab (demo_body True 1 (- 1)) [1] [0] 1) = replicate 17 (1 / 2)
   \<and> gnu_sort (\<lambda>a b. t a < t b) crowd = Some (std_sort crowd_collab crowd)
   \<and> map limit_joint (events (build_events crowd_collab 1 (provisional crowd_collab 1 scene_fall)))
     = [8, 16, 15, 14, 13, 12, 11, 10, 9, 0, 7, 6, 5, 4, 3, 2, 1]"
proof -
  have a: "ab_find_limit_events crowd_collab (demo_body True 1 (- 1)) [1] [0] 1 = crowd"
    by (simp add: crowd_collab_def demo_collab_def report_def)
  have b: "map limit_joint crowd = [0, 1, 2, 3, 4, 5, 6, 7, 8, 9, 10, 11, 12, 13, 14, 15, 16]"
    by (simp add: crowd_def upt_rec limit_event_def)
  have c: "map t crowd = replicate 17 (1 / 2)"
    by (simp add: crowd_def upt_rec t_limit_event eval_nat_numeral)
  have d: "find_limit_events crowd_collab 1 (provisional crowd_collab 1 scene_fall) = crowd"
    by (simp add: find_limit_events_def provisional_def Let_def integrate_si_Euler_def integrate_body_def
        scene_fall_def demo_sim_def demo_body_def crowd_collab_def demo_collab_def report_def
        get_coords_def get_velocities_def)
  have e: "std_sort crowd_collab crowd
     = map (\<lambda>j. limit_event j (1 / 2)) [8, 16, 15, 14, 13, 12, 11, 10, 9, 0, 7, 6, 5, 4, 3, 2, 1]"
    by (simp add: crowd_collab_def demo_collab_def gnu_std_sort_def crowd_sorted)
  have f: "collision_detectors crowd_collab = []"
    by (simp add: crowd_collab_def demo_collab_def)
  have "map limit_joint (events (build_events crowd_collab 1 (provisional crowd_collab 1 scene_fall)))
     = [8, 16, 15, 14, 13, 12, 11, 10, 9, 0, 7, 6, 5, 4, 3, 2, 1]"
    by (simp add: build_events_def Let_def d e f limit_joint_stamp_event limit_event_def o_def)
  then show ?thesis using a b c e crowd_sorted by simp
qed

section \<open>The order of the contact parameter lookups\<close>

text \<open>
  C8. What the code does: the lookups against the first articulated body, (geometry 2,
  articulated body 1) and then (rigid body 2, articulated body 1), are both made before
  any lookup against the second articulated body. An entry for (rigid body 2, articulated
  body 1) is returned when no earlier lookup matches, whether or not the table has an
  entry for (geometry 1, articulated body 2).
\<close>

theorem body_entry_before_geometry_entry:
  assumes "is_rigid (single_body geom1)" and "articulated_body (single_body geom1) = Some a1"
      and "cps (make_sorted_pair (geom_id geom1) (geom_id geom2)) = None"
      and "cps (make_sorted_pair (geom_id geom1) (sb_id (single_body geom2))) = None"
      and "cps (make_sorted_pair (geom_id geom2) (sb_id (single_body geom1))) = None"
      and "cps (make_sorted_pair (sb_id (single_body geom1)) (sb_id (single_body geom2))) = None"
      and "cps (make_sorted_pair (geom_id geom2) a1) = None"
      and "cps (make_sorted_pair (sb_id (single_body geom2)) a1) = Some p"
  shows "get_contact_parameters cps geom1 geom2 = Some p"
  using assms by (simp add: get_contact_parameters_def Let_def)

text \<open>
  With entries for (rigid body 2, articulated body 1) and (geometry 1, articulated body 2)
  the code returns the first, the six levels in their order give the second.
\<close>

theorem body_entry_before_geometry_entry_witness:
  "get_contact_parameters two_robots (demo_geom 1 11 (Some 21)) (demo_geom 2 12 (Some 22)) = Some params_a
   \<and> six_level_lookup two_robots (demo_geom 1 11 (Some 21)) (demo_geom 2 12 (Some 22)) = Some params_b
   \<and> two_robots (make_sorted_pair 1 22) = Some params_b
   \<and> params_a \<noteq> params_b"
  using body_entry_before_geometry_entry
    [of "demo_geom 1 11 (Some 21)" 21 two_robots "demo_geom 2 12 (Some 22)" params_a]
  by (simp add: two_robots_def demo_geom_def make_sorted_pair_def six_level_lookup_def Let_def
      params_a_def params_b_def)

end
